theory Spec2Isabelle
  imports Main "HOL-Library.Sublist"
begin

text \<open>
  A model of MikroMail's SMTP client: the string utilities (\<open>encodeQuotedPrintable\<close>,
  \<open>validateEmail\<close>), the class \<open>SMTPClient\<close> with its constructor, \<open>connect\<close>,
  \<open>sendCommand\<close>, the handshake and the authentication methods, the composition of the
  message, \<open>sendEmail\<close> with its retry loop, and \<open>close\<close>.  A method is a function from
  the state of the client to a result and the new state; a rejected promise is the result
  \<open>Rejected\<close>; the network, the clock and the random source are an environment.
\<close>

section \<open>JavaScript strings\<close>

text \<open>
  A JavaScript string is a sequence of UTF-16 code units, each below 65536; \<open>length\<close>
  is the \<open>.length\<close> of the source and \<open>charCodeAt\<close> is the element itself.  String
  literals of the source are written \<open>js ''...''\<close>.  Byte arrays (\<open>Uint8Array\<close>,
  \<open>Buffer\<close>) are lists of numbers below 256.
\<close>

type_synonym jsstring = "nat list"

definition js :: "string \<Rightarrow> jsstring" where
  "js s = map of_char s"

definition CRLF :: jsstring where
  "CRLF = [13, 10]"

definition startsWith :: "jsstring \<Rightarrow> jsstring \<Rightarrow> bool" where
  "startsWith s p = prefix p s"

definition endsWith :: "jsstring \<Rightarrow> jsstring \<Rightarrow> bool" where
  "endsWith s p = suffix p s"

text \<open>\<open>String.prototype.includes\<close>.\<close>

fun jsIncludes :: "jsstring \<Rightarrow> jsstring \<Rightarrow> bool" where
  "jsIncludes [] sub = (sub = [])"
| "jsIncludes (x # xs) sub = (prefix sub (x # xs) \<or> jsIncludes xs sub)"

text \<open>
  \<open>String.prototype.split\<close> with a non-empty separator string: the pieces between
  the occurrences of the separator, found from the left; a string without the separator
  is one piece.  (The source never splits on the empty string.)
\<close>

fun splitFrom :: "jsstring \<Rightarrow> jsstring \<Rightarrow> jsstring \<Rightarrow> jsstring list" where
  "splitFrom sep acc [] = [acc]"
| "splitFrom [] acc (x # xs) = splitFrom [] (acc @ [x]) xs"
| "splitFrom (s # sep) acc (x # xs) =
     (if s = x \<and> prefix sep xs
      then acc # splitFrom (s # sep) [] (drop (length sep) xs)
      else splitFrom (s # sep) (acc @ [x]) xs)"

definition jsSplit :: "jsstring \<Rightarrow> jsstring \<Rightarrow> jsstring list" where
  "jsSplit sep s = splitFrom sep [] s"

text \<open>\<open>Array.prototype.join\<close>.\<close>

fun jsJoin :: "jsstring \<Rightarrow> jsstring list \<Rightarrow> jsstring" where
  "jsJoin sep [] = []"
| "jsJoin sep [x] = x"
| "jsJoin sep (x # y # ys) = x @ sep @ jsJoin sep (y # ys)"

text \<open>
  The characters \<open>\s\<close> of a regular expression and the characters \<open>trim\<close> strips
  are the same set: ECMAScript's WhiteSpace and LineTerminator.
\<close>

definition isWhiteSpace :: "nat \<Rightarrow> bool" where
  "isWhiteSpace c \<longleftrightarrow>
     c = 9 \<or> c = 10 \<or> c = 11 \<or> c = 12 \<or> c = 13 \<or> c = 32 \<or> c = 160 \<or> c = 5760 \<or>
     (8192 \<le> c \<and> c \<le> 8202) \<or> c = 8232 \<or> c = 8233 \<or> c = 8239 \<or> c = 8287 \<or>
     c = 12288 \<or> c = 65279"

definition trim :: "jsstring \<Rightarrow> jsstring" where
  "trim s = rev (dropWhile isWhiteSpace (rev (dropWhile isWhiteSpace s)))"

definition isDigit :: "nat \<Rightarrow> bool" where
  "isDigit c \<longleftrightarrow> 48 \<le> c \<and> c \<le> 57"

definition isAlnum :: "nat \<Rightarrow> bool" where
  "isAlnum c \<longleftrightarrow> (97 \<le> c \<and> c \<le> 122) \<or> (65 \<le> c \<and> c \<le> 90) \<or> isDigit c"

text \<open>
  \<open>toUpperCase\<close> on the ASCII letters.  Code units above 127 are left as they are:
  the source upper-cases only the lines of an EHLO response, which RFC 5321 makes ASCII.
\<close>

definition toUpperCase :: "jsstring \<Rightarrow> jsstring" where
  "toUpperCase s = map (\<lambda>c. if 97 \<le> c \<and> c \<le> 122 then c - 32 else c) s"

definition toLowerAscii :: "jsstring \<Rightarrow> jsstring" where
  "toLowerAscii s = map (\<lambda>c. if 65 \<le> c \<and> c \<le> 90 then c + 32 else c) s"

text \<open>\<open>Number.prototype.toString(16).toUpperCase()\<close> and \<open>toString()\<close> of a
  non-negative integer.\<close>

definition hexDigit :: "nat \<Rightarrow> nat" where
  "hexDigit d = (if d < 10 then 48 + d else 55 + d)"

function hexUpper :: "nat \<Rightarrow> jsstring" where
  "hexUpper n = (if n < 16 then [hexDigit n] else hexUpper (n div 16) @ [hexDigit (n mod 16)])"
  by pat_completeness auto
termination
  by (relation "measure (\<lambda>n. n)") auto

function showNat :: "nat \<Rightarrow> jsstring" where
  "showNat n = (if n < 10 then [48 + n] else showNat (n div 10) @ [48 + n mod 10])"
  by pat_completeness auto
termination
  by (relation "measure (\<lambda>n. n)") auto

text \<open>
  \<open>new TextEncoder().encode\<close> and \<open>Buffer.from(string)\<close>: the UTF-8 bytes of the
  string.  A surrogate pair is one code point of four bytes; a lone surrogate is
  encoded as U+FFFD.
\<close>

definition utf8CodePoint :: "nat \<Rightarrow> nat list" where
  "utf8CodePoint cp =
     (if cp < 128 then [cp]
      else if cp < 2048 then [192 + cp div 64, 128 + cp mod 64]
      else if cp < 65536 then [224 + cp div 4096, 128 + (cp div 64) mod 64, 128 + cp mod 64]
      else [240 + cp div 262144, 128 + (cp div 4096) mod 64, 128 + (cp div 64) mod 64,
            128 + cp mod 64])"

definition isHighSurrogate :: "nat \<Rightarrow> bool" where
  "isHighSurrogate c \<longleftrightarrow> 55296 \<le> c \<and> c \<le> 56319"

definition isLowSurrogate :: "nat \<Rightarrow> bool" where
  "isLowSurrogate c \<longleftrightarrow> 56320 \<le> c \<and> c \<le> 57343"

definition scalarOf :: "nat \<Rightarrow> nat" where
  "scalarOf c = (if isHighSurrogate c \<or> isLowSurrogate c then 65533 else c)"

fun utf8Encode :: "jsstring \<Rightarrow> nat list" where
  "utf8Encode [] = []"
| "utf8Encode [x] = utf8CodePoint (scalarOf x)"
| "utf8Encode (x # y # xs) =
     (if isHighSurrogate x \<and> isLowSurrogate y
      then utf8CodePoint (65536 + (x - 55296) * 1024 + (y - 56320)) @ utf8Encode xs
      else utf8CodePoint (scalarOf x) @ utf8Encode (y # xs))"

section \<open>utils: encodeQuotedPrintable and validateEmail\<close>

text \<open>\<open>text.replace(/\r?\n/g, '\r\n')\<close>\<close>

fun replaceNewlines :: "jsstring \<Rightarrow> jsstring" where
  "replaceNewlines [] = []"
| "replaceNewlines [x] = (if x = 10 then [13, 10] else [x])"
| "replaceNewlines (x # y # xs) =
     (if x = 13 \<and> y = 10 then 13 # 10 # replaceNewlines xs
      else if x = 10 then 13 # 10 # replaceNewlines (y # xs)
      else x # replaceNewlines (y # xs))"

text \<open>\<open>result.replace(/=/g, '=3D')\<close>\<close>

definition replaceEquals :: "jsstring \<Rightarrow> jsstring" where
  "replaceEquals s = concat (map (\<lambda>c. if c = 61 then [61, 51, 68] else [c]) s)"

text \<open>
  The body of the \<open>for\<close> loop over \<open>utf8Bytes\<close>, with the two variables of the loop,
  \<open>encoded\<close> and \<open>lineLength\<close>, as arguments.
\<close>

definition qpChunk :: "nat \<Rightarrow> jsstring" where
  "qpChunk byte =
     (if (33 \<le> byte \<and> byte \<le> 126 \<and> byte \<noteq> 61) \<or> byte = 32 then [byte]
      else if byte = 13 \<or> byte = 10 then [byte]
      else (let hex = hexUpper byte in 61 # (if length hex < 2 then 48 # hex else hex)))"

fun qpLoop :: "nat list \<Rightarrow> jsstring \<Rightarrow> nat \<Rightarrow> jsstring" where
  "qpLoop [] encoded lineLength = encoded"
| "qpLoop (byte # bytes) encoded lineLength =
     (let chunk = qpChunk byte;
          lineLength1 = (if byte = 10 then 0 else lineLength);
          softBreak = (lineLength1 + length chunk > 75 \<and> \<not> (byte = 13 \<or> byte = 10));
          encoded1 = (if softBreak then encoded @ [61, 13, 10] else encoded);
          lineLength2 = (if softBreak then 0 else lineLength1)
      in qpLoop bytes (encoded1 @ chunk) (lineLength2 + length chunk))"

definition encodeQuotedPrintable :: "jsstring \<Rightarrow> jsstring" where
  "encodeQuotedPrintable text =
     qpLoop (utf8Encode (replaceEquals (replaceNewlines text))) [] 0"

text \<open>
  The character class of the local part,
  \<open>[a-zA-Z0-9!#$%&'*+\-/=?^_`{|}~.]\<close>, by character code.
\<close>

definition isLocalChar :: "nat \<Rightarrow> bool" where
  "isLocalChar c \<longleftrightarrow>
     isAlnum c \<or> c \<in> set [33, 35, 36, 37, 38, 39, 42, 43, 45, 47, 61, 63, 94, 95, 96,
                           123, 124, 125, 126, 46]"

text \<open>\<open>/^[a-zA-Z0-9]([a-zA-Z0-9\-]*[a-zA-Z0-9])?$/\<close> on a non-empty string.\<close>

definition isDomainLabel :: "jsstring \<Rightarrow> bool" where
  "isDomainLabel part \<longleftrightarrow>
     part \<noteq> [] \<and> isAlnum (hd part) \<and> isAlnum (last part) \<and>
     list_all (\<lambda>c. isAlnum c \<or> c = 45) part"

text \<open>\<open>/^[0-9]{1,3}\.[0-9]{1,3}\.[0-9]{1,3}\.[0-9]{1,3}$/\<close>\<close>

definition isIPv4 :: "jsstring \<Rightarrow> bool" where
  "isIPv4 s \<longleftrightarrow>
     (let groups = jsSplit [46] s
      in length groups = 4 \<and>
         list_all (\<lambda>g. 1 \<le> length g \<and> length g \<le> 3 \<and> list_all isDigit g) groups)"

text \<open>
  \<open>validateEmail\<close>.  The destructuring \<open>[localPart, domain] = email.split('@')\<close> takes
  the first two pieces and leaves \<open>domain\<close> undefined (\<open>None\<close>) when there is no \<open>@\<close>.
  \<open>domain.slice(1, -1)\<close> drops the first and the last character.  The loop over
  \<open>domainParts\<close> returns false at the first bad part, which is \<open>list_all\<close>.
\<close>

definition validateEmail :: "jsstring \<Rightarrow> bool" where
  "validateEmail email =
     (let parts = jsSplit [64] email;
          localPart = hd parts;
          domain = (case parts of _ # d # _ \<Rightarrow> Some d | _ \<Rightarrow> None)
      in if localPart = [] \<or> length localPart > 64 then False
         else if startsWith localPart [46] \<or> endsWith localPart [46] \<or>
                 jsIncludes localPart [46, 46] then False
         else if \<not> list_all isLocalChar localPart then False
         else (case domain of
                 None \<Rightarrow> False
               | Some d \<Rightarrow>
                   if d = [] \<or> length d > 255 then False
                   else if startsWith d [91] \<and> endsWith d [93] then
                     (let ipContent = butlast (tl d)
                      in if startsWith ipContent (js ''IPv6:'') then True
                         else isIPv4 ipContent)
                   else if startsWith d [46] \<or> endsWith d [46] \<or> jsIncludes d [46, 46]
                     then False
                   else (let domainParts = jsSplit [46] d
                         in if length domainParts < 2 \<or> length (last domainParts) < 2
                            then False
                            else list_all (\<lambda>part. part \<noteq> [] \<and> length part \<le> 63 \<and>
                                                   isDomainLabel part) domainParts)))"

text \<open>\<open>Buffer.prototype.toString('base64')\<close>: the standard alphabet, padded with \<open>=\<close>.\<close>

definition b64Char :: "nat \<Rightarrow> nat" where
  "b64Char i =
     (if i < 26 then 65 + i else if i < 52 then 71 + i else if i < 62 then i - 4
      else if i = 62 then 43 else 47)"

fun base64 :: "nat list \<Rightarrow> jsstring" where
  "base64 [] = []"
| "base64 [a] = [b64Char (a div 4), b64Char ((a mod 4) * 16), 61, 61]"
| "base64 [a, b] =
     [b64Char (a div 4), b64Char ((a mod 4) * 16 + b div 16), b64Char ((b mod 16) * 4), 61]"
| "base64 (a # b # c # xs) =
     [b64Char (a div 4), b64Char ((a mod 4) * 16 + b div 16),
      b64Char ((b mod 16) * 4 + c div 64), b64Char (c mod 64)] @ base64 xs"

section \<open>interfaces\<close>

text \<open>
  \<open>SMTPConfiguration\<close> as the caller gives it (an optional field is an \<open>option\<close>), and
  the \<open>Required<SMTPConfiguration>\<close> the constructor stores in \<open>this.config\<close>.
\<close>

record SMTPConfiguration =
  cfgUser :: jsstring
  cfgPassword :: jsstring
  cfgHost :: jsstring
  cfgPort :: "nat option"
  cfgSecure :: "bool option"
  cfgTimeout :: "nat option"
  cfgDebug :: "bool option"
  cfgClientName :: "jsstring option"
  cfgMaxRetries :: "nat option"
  cfgRetryDelay :: "nat option"
  cfgSkipAuthentication :: "bool option"

record RequiredConfiguration =
  host :: jsstring
  user :: jsstring
  password :: jsstring
  port :: nat
  secure :: bool
  debug :: bool
  timeout :: nat
  clientName :: jsstring
  maxRetries :: nat
  retryDelay :: nat
  skipAuthentication :: bool

text \<open>
  A value that is a string or an array of strings at run time (\<open>cc\<close>, \<open>bcc\<close>, and
  \<open>to\<close>, which the interface declares a string while the README and the facade of
  \<open>MikroMail.send\<close> pass an array).
\<close>

datatype addresses = Single jsstring | Many "jsstring list"

text \<open>
  \<open>EmailOptions\<close>; \<open>headers\<close> is the list \<open>Object.entries\<close> gives.  The fields \<open>from\<close>,
  \<open>to\<close>, \<open>text\<close> and \<open>html\<close> are \<open>fromAddr\<close>, \<open>toAddr\<close>, \<open>textBody\<close> and \<open>htmlBody\<close>;
  \<open>attachments\<close> is read nowhere in the client and is left out.
\<close>

record EmailOptions =
  fromAddr :: "jsstring option"
  toAddr :: addresses
  cc :: "addresses option"
  bcc :: "addresses option"
  replyTo :: "jsstring option"
  subject :: jsstring
  textBody :: "jsstring option"
  htmlBody :: "jsstring option"
  headers :: "(jsstring \<times> jsstring) list"

record SendResult =
  success :: bool
  messageId :: "jsstring option"
  message :: "jsstring option"
  error :: "jsstring option"

datatype AuthMethod = PLAIN | LOGIN | CRAM_MD5

text \<open>JavaScript truthiness: a string is truthy when non-empty, an array always.\<close>

fun truthy :: "addresses \<Rightarrow> bool" where
  "truthy (Single s) = (s \<noteq> [])"
| "truthy (Many xs) = True"

text \<open>\<open>Array.isArray(v) ? v : [v]\<close>\<close>

fun asList :: "addresses \<Rightarrow> jsstring list" where
  "asList (Single s) = [s]"
| "asList (Many xs) = xs"

text \<open>\<open>Array.isArray(v) ? v.join(', ') : v\<close>\<close>

fun joined :: "addresses \<Rightarrow> jsstring" where
  "joined (Single s) = s"
| "joined (Many xs) = jsJoin (js '', '') xs"

text \<open>A value inside a template literal: an array is joined with commas.\<close>

fun interpolate :: "addresses \<Rightarrow> jsstring" where
  "interpolate (Single s) = s"
| "interpolate (Many xs) = jsJoin (js '','') xs"

text \<open>
  \<open>validateEmail\<close> applied to a run-time value: an array has no \<open>split\<close> method, the call
  raises a TypeError inside the \<open>try\<close> block of \<open>validateEmail\<close>, and its \<open>catch\<close> returns
  false.
\<close>

fun validateEmailValue :: "addresses \<Rightarrow> bool" where
  "validateEmailValue (Single s) = validateEmail s"
| "validateEmailValue (Many xs) = False"

section \<open>SMTPClient: state and environment\<close>

text \<open>
  The fields of the class that are written after construction, and a trace of what the
  client did to the outside world: sockets created, lines written, messages logged
  (\<open>console.log\<close>), delays awaited, sockets ended and destroyed.  \<open>socket\<close> is \<open>None\<close>
  for \<open>null\<close>.  \<open>this.config\<close> is assigned once, in the constructor; it is passed beside
  the state as \<open>cfg\<close>.
\<close>

datatype socket = PlainSocket | TLSSocket

datatype event =
    Created socket
  | Written jsstring
  | Logged jsstring
  | Slept nat
  | Upgraded
  | Ended
  | Destroyed

record SMTPClient =
  socket :: "socket option"
  connected :: bool
  lastCommand :: jsstring
  serverCapabilities :: "jsstring list"
  secureMode :: bool
  retryCount :: nat
  trace :: "event list"

text \<open>
  What the network and the platform do, as functions of the trace so far: how a
  connection attempt ends, what the server has sent when the response to the last
  written command is complete (\<open>NoReply\<close>: nothing complete arrives before the command
  timeout), how the TLS upgrade ends, and the platform's random bytes (as hexadecimal
  text), clock, host name, HMAC-MD5 and base64 decoder.  The server closing the
  connection on its own between two commands is not part of the model.
\<close>

datatype connectOutcome =
    SocketThrows jsstring
  | SocketError jsstring
  | ConnectTimeout
  | ClosedEarly
  | Greeting jsstring

datatype reply = Reply jsstring | NoReply

datatype tlsOutcome = TlsError jsstring | TlsAuthorized | TlsUnauthorized jsstring

record env =
  hostname :: jsstring
  connectOutcome :: "event list \<Rightarrow> connectOutcome"
  respond :: "event list \<Rightarrow> reply"
  tlsOutcome :: "event list \<Rightarrow> tlsOutcome"
  randomBytesHex :: "event list \<Rightarrow> nat \<Rightarrow> jsstring"
  dateNow :: "event list \<Rightarrow> jsstring"
  hmacMd5Hex :: "jsstring \<Rightarrow> jsstring \<Rightarrow> jsstring"
  base64Decode :: "jsstring \<Rightarrow> jsstring"

text \<open>
  An awaited promise: \<open>Resolved\<close> with its value, or \<open>Rejected\<close> with the message of
  the error, which \<open>await\<close> throws on.  \<open>andThen\<close> is the sequencing of two awaits
  inside one \<open>try\<close> block.
\<close>

datatype 'a outcome = Resolved 'a | Rejected jsstring

definition andThen ::
  "'a outcome \<times> SMTPClient \<Rightarrow> ('a \<Rightarrow> SMTPClient \<Rightarrow> 'b outcome \<times> SMTPClient) \<Rightarrow>
   'b outcome \<times> SMTPClient" where
  "andThen r f = (case r of (Resolved x, c) \<Rightarrow> f x c | (Rejected e, c) \<Rightarrow> (Rejected e, c))"

definition wire :: "event list \<Rightarrow> jsstring list" where
  "wire tr = concat (map (\<lambda>e. case e of Written s \<Rightarrow> [s] | _ \<Rightarrow> []) tr)"

definition logged :: "event list \<Rightarrow> jsstring list" where
  "logged tr = concat (map (\<lambda>e. case e of Logged s \<Rightarrow> [s] | _ \<Rightarrow> []) tr)"

section \<open>SMTPClient: constructor, log, connect\<close>

definition resolveConfiguration :: "env \<Rightarrow> SMTPConfiguration \<Rightarrow> RequiredConfiguration" where
  "resolveConfiguration env config =
     \<lparr> host = cfgHost config,
       user = cfgUser config,
       password = cfgPassword config,
       port = (case cfgPort config of
                 Some p \<Rightarrow> p
               | None \<Rightarrow> (if cfgSecure config = Some True then 465 else 587)),
       secure = (case cfgSecure config of Some b \<Rightarrow> b | None \<Rightarrow> True),
       debug = (case cfgDebug config of Some b \<Rightarrow> b | None \<Rightarrow> False),
       timeout = (case cfgTimeout config of Some t \<Rightarrow> t | None \<Rightarrow> 10000),
       clientName = (case cfgClientName config of Some n \<Rightarrow> n | None \<Rightarrow> hostname env),
       maxRetries = (case cfgMaxRetries config of Some n \<Rightarrow> n | None \<Rightarrow> 3),
       retryDelay = (case cfgRetryDelay config of Some n \<Rightarrow> n | None \<Rightarrow> 1000),
       skipAuthentication = (cfgSkipAuthentication config = Some True) \<rparr>"

definition newClient :: "RequiredConfiguration \<Rightarrow> SMTPClient" where
  "newClient cfg =
     \<lparr> socket = None, connected = False, lastCommand = [], serverCapabilities = [],
       secureMode = secure cfg, retryCount = 0, trace = [] \<rparr>"

definition maxEmailSize :: nat where
  "maxEmailSize = 10485760"

definition emit :: "event \<Rightarrow> SMTPClient \<Rightarrow> SMTPClient" where
  "emit e c = c\<lparr>trace := trace c @ [e]\<rparr>"

definition log :: "RequiredConfiguration \<Rightarrow> jsstring \<Rightarrow> bool \<Rightarrow> SMTPClient \<Rightarrow> SMTPClient" where
  "log cfg msg isError c =
     (if debug cfg
      then emit (Logged ((if isError then js ''SMTP ERROR: '' else js ''SMTP: '') @ msg)) c
      else c)"

text \<open>
  \<open>connect\<close> with \<open>createTLSConnection\<close>, \<open>createPlainConnection\<close> and
  \<open>setupSocketEventHandlers\<close>: the promise settles on the first of the socket's events.
\<close>

definition connect ::
  "env \<Rightarrow> RequiredConfiguration \<Rightarrow> SMTPClient \<Rightarrow> unit outcome \<times> SMTPClient" where
  "connect env cfg c =
     (case connectOutcome env (trace c) of
        SocketThrows m \<Rightarrow>
          (Rejected m, log cfg (js ''Failed to create socket: '' @ m) True c)
      | SocketError m \<Rightarrow>
          (let kind = (if secure cfg then TLSSocket else PlainSocket);
               c1 = emit (Created kind) (c\<lparr>socket := Some kind\<rparr>)
           in (Rejected (js ''SMTP connection error: '' @ m),
               log cfg (js ''Connection error: '' @ m) True c1))
      | ConnectTimeout \<Rightarrow>
          (let kind = (if secure cfg then TLSSocket else PlainSocket);
               c1 = emit (Created kind) (c\<lparr>socket := Some kind\<rparr>)
           in (Rejected (js ''Connection timeout after '' @ showNat (timeout cfg) @ js ''ms''),
               (emit Destroyed c1)\<lparr>connected := False\<rparr>))
      | ClosedEarly \<Rightarrow>
          (let kind = (if secure cfg then TLSSocket else PlainSocket);
               c1 = emit (Created kind) (c\<lparr>socket := Some kind\<rparr>)
           in (Rejected (js ''Connection closed before initialization completed''),
               c1\<lparr>connected := False\<rparr>))
      | Greeting data \<Rightarrow>
          (let kind = (if secure cfg then TLSSocket else PlainSocket);
               c1 = emit (Created kind) (c\<lparr>socket := Some kind\<rparr>);
               c2 = log cfg (js ''Connected to SMTP server'') False c1;
               greeting = trim data;
               c3 = log cfg (js ''Server greeting: '' @ greeting) False c2
           in if startsWith greeting (js ''220'')
              then (Resolved (), c3\<lparr>connected := True, secureMode := secure cfg\<rparr>)
              else (Rejected (js ''Unexpected server greeting: '' @ greeting),
                    (emit Destroyed c3)\<lparr>connected := False\<rparr>)))"

definition upgradeToTLS ::
  "env \<Rightarrow> RequiredConfiguration \<Rightarrow> SMTPClient \<Rightarrow> unit outcome \<times> SMTPClient" where
  "upgradeToTLS env cfg c =
     (if socket c = None \<or> secureMode c then (Resolved (), c)
      else (case tlsOutcome env (trace c) of
              TlsError m \<Rightarrow>
                (Rejected (js ''STARTTLS error: '' @ m),
                 log cfg (js ''TLS upgrade error: '' @ m) True c)
            | TlsAuthorized \<Rightarrow>
                (Resolved (),
                 (emit Upgraded (log cfg (js ''Connection upgraded to TLS'') False c))
                   \<lparr>socket := Some TLSSocket, secureMode := True\<rparr>)
            | TlsUnauthorized m \<Rightarrow>
                (Rejected (js ''TLS certificate verification failed: '' @ m),
                 log cfg (js ''Connection upgraded to TLS'') False c)))"

section \<open>SMTPClient: sendCommand\<close>

text \<open>
  The check \<open>onData\<close> makes on the accumulated \<open>responseData\<close>: the data ends with CR LF,
  and the line before matches \<open>/^(\d{3})(.?)/\<close> with a second group that is not \<open>-\<close>.
  The result is the first group, the response code, when the response is complete.
\<close>

definition responseCode :: "jsstring \<Rightarrow> jsstring option" where
  "responseCode responseData =
     (let lines = jsSplit CRLF responseData
      in if last lines = []
         then (let lastLine = (if 2 \<le> length lines then lines ! (length lines - 2) else [])
               in if 3 \<le> length lastLine \<and> list_all isDigit (take 3 lastLine) \<and>
                     \<not> (4 \<le> length lastLine \<and> lastLine ! 3 = 45)
                  then Some (take 3 lastLine) else None)
         else None)"

text \<open>The condition under which the command is not logged.\<close>

definition credentialsHidden :: "jsstring \<Rightarrow> jsstring \<Rightarrow> bool" where
  "credentialsHidden lastCmd command \<longleftrightarrow>
     startsWith command (js ''AUTH PLAIN'') \<or> startsWith command (js ''AUTH LOGIN'') \<or>
     (lastCmd = js ''AUTH LOGIN'' \<and> \<not> startsWith command (js ''AUTH''))"

text \<open>
  \<open>sendCommand\<close>, with the default \<open>timeout = this.config.timeout\<close> every caller uses.
  A response that never becomes complete leaves the listener waiting until the command
  timeout rejects, as no response does.
\<close>

definition sendCommand ::
  "env \<Rightarrow> RequiredConfiguration \<Rightarrow> jsstring \<Rightarrow> nat \<Rightarrow> SMTPClient \<Rightarrow>
   jsstring outcome \<times> SMTPClient" where
  "sendCommand env cfg command expectedCode c =
     (if socket c = None \<or> \<not> connected c
      then (Rejected (js ''Not connected to SMTP server''), c)
      else
        (let c1 = (if credentialsHidden (lastCommand c) command
                   then log cfg (js ''SMTP Command: [Credentials hidden]'') False c
                   else log cfg (js ''SMTP Command: '' @ command) False c);
             c2 = emit (Written (command @ CRLF)) (c1\<lparr>lastCommand := command\<rparr>);
             timedOut = Rejected (js ''Command timeout after '' @ showNat (timeout cfg) @
                                  js ''ms: '' @ command)
         in case respond env (trace c2) of
              NoReply \<Rightarrow> (timedOut, c2)
            | Reply responseData \<Rightarrow>
                (case responseCode responseData of
                   None \<Rightarrow> (timedOut, c2)
                 | Some code \<Rightarrow>
                     (let c3 = log cfg (js ''SMTP Response: '' @ trim responseData) False c2
                      in if code = showNat expectedCode
                         then (Resolved (trim responseData), c3)
                         else (Rejected (js ''SMTP Error: '' @ trim responseData), c3)))))"

section \<open>SMTPClient: capabilities and authentication\<close>

definition parseCapabilities ::
  "RequiredConfiguration \<Rightarrow> jsstring \<Rightarrow> SMTPClient \<Rightarrow> SMTPClient" where
  "parseCapabilities cfg ehloResponse c =
     (let lines = jsSplit CRLF ehloResponse;
          caps = map (\<lambda>line. toUpperCase (drop 4 line))
                   (filter (\<lambda>line. 4 \<le> length line \<and> list_all isDigit (take 3 line) \<and>
                                     line ! 3 = 32)
                      (drop 1 lines))
      in log cfg (js ''Server capabilities: '' @ jsJoin (js '', '') caps) False
           (c\<lparr>serverCapabilities := caps\<rparr>))"

definition getBestAuthMethod :: "SMTPClient \<Rightarrow> AuthMethod" where
  "getBestAuthMethod c =
     (let capabilities = map (\<lambda>cap. hd (jsSplit [32] cap)) (serverCapabilities c)
      in if js ''AUTH'' \<in> set capabilities
         then (case find (\<lambda>cap. startsWith cap (js ''AUTH '')) (serverCapabilities c) of
                 Some authLine \<Rightarrow>
                   (let methods = drop 1 (jsSplit [32] authLine)
                    in if js ''CRAM-MD5'' \<in> set methods then CRAM_MD5
                       else if js ''LOGIN'' \<in> set methods then LOGIN
                       else PLAIN)
               | None \<Rightarrow> PLAIN)
         else PLAIN)"

definition authenticatePlain ::
  "env \<Rightarrow> RequiredConfiguration \<Rightarrow> SMTPClient \<Rightarrow> unit outcome \<times> SMTPClient" where
  "authenticatePlain env cfg c =
     (let authPlain = base64 (utf8Encode ([0] @ user cfg @ [0] @ password cfg))
      in andThen (sendCommand env cfg (js ''AUTH PLAIN '' @ authPlain) 235 c)
           (\<lambda>_ c1. (Resolved (), c1)))"

definition authenticateLogin ::
  "env \<Rightarrow> RequiredConfiguration \<Rightarrow> SMTPClient \<Rightarrow> unit outcome \<times> SMTPClient" where
  "authenticateLogin env cfg c =
     andThen (sendCommand env cfg (js ''AUTH LOGIN'') 334 c)
       (\<lambda>_ c1. andThen (sendCommand env cfg (base64 (utf8Encode (user cfg))) 334 c1)
       (\<lambda>_ c2. andThen (sendCommand env cfg (base64 (utf8Encode (password cfg))) 235 c2)
       (\<lambda>_ c3. (Resolved (), c3))))"

definition authenticateCramMD5 ::
  "env \<Rightarrow> RequiredConfiguration \<Rightarrow> SMTPClient \<Rightarrow> unit outcome \<times> SMTPClient" where
  "authenticateCramMD5 env cfg c =
     andThen (sendCommand env cfg (js ''AUTH CRAM-MD5'') 334 c)
       (\<lambda>response c1.
          (let challenge = base64Decode env (drop 4 response);
               digest = hmacMd5Hex env (password cfg) challenge;
               cramResponse = user cfg @ js '' '' @ digest;
               encodedResponse = base64 (utf8Encode cramResponse)
           in andThen (sendCommand env cfg encodedResponse 235 c1)
                (\<lambda>_ c2. (Resolved (), c2))))"

definition authenticate ::
  "env \<Rightarrow> RequiredConfiguration \<Rightarrow> SMTPClient \<Rightarrow> unit outcome \<times> SMTPClient" where
  "authenticate env cfg c =
     (case getBestAuthMethod c of
        CRAM_MD5 \<Rightarrow> authenticateCramMD5 env cfg c
      | LOGIN \<Rightarrow> authenticateLogin env cfg c
      | PLAIN \<Rightarrow> authenticatePlain env cfg c)"

definition smtpHandshake ::
  "env \<Rightarrow> RequiredConfiguration \<Rightarrow> SMTPClient \<Rightarrow> unit outcome \<times> SMTPClient" where
  "smtpHandshake env cfg c =
     andThen (sendCommand env cfg (js ''EHLO '' @ clientName cfg) 250 c)
       (\<lambda>ehloResponse c1.
          andThen
            (let c2 = parseCapabilities cfg ehloResponse c1
             in if \<not> secureMode c2 \<and> js ''STARTTLS'' \<in> set (serverCapabilities c2)
                then andThen (sendCommand env cfg (js ''STARTTLS'') 220 c2)
                       (\<lambda>_ c3. andThen (upgradeToTLS env cfg c3)
                       (\<lambda>_ c4. andThen (sendCommand env cfg (js ''EHLO '' @ clientName cfg) 250 c4)
                       (\<lambda>secureEhloResponse c5.
                          (Resolved (), parseCapabilities cfg secureEhloResponse c5))))
                else (Resolved (), c2))
            (\<lambda>_ c6.
               if \<not> skipAuthentication cfg then authenticate env cfg c6
               else (Resolved (),
                     log cfg (js ''Authentication skipped (testing mode)'') False c6)))"

section \<open>SMTPClient: composing the message\<close>

text \<open>
  \<open>this.config.user.split('@')[1] || 'localhost'\<close>, and sixteen random bytes in
  hexadecimal.
\<close>

definition generateMessageId ::
  "env \<Rightarrow> RequiredConfiguration \<Rightarrow> event list \<Rightarrow> jsstring" where
  "generateMessageId env cfg tr =
     (let random = randomBytesHex env tr 16;
          parts = jsSplit [64] (user cfg);
          domain = (if 2 \<le> length parts \<and> parts ! 1 \<noteq> [] then parts ! 1
                    else js ''localhost'')
      in js ''<'' @ random @ js ''@'' @ domain @ js ''>'')"

definition generateBoundary :: "env \<Rightarrow> event list \<Rightarrow> jsstring" where
  "generateBoundary env tr = js ''----=_NextPart_'' @ randomBytesHex env tr 12"

text \<open>
  \<open>encodeHeaderValue\<close>: the test \<open>/^[\x00-\x7F]*$/\<close>, and the replacement of every code
  unit outside that range by \<open>=\<close> and \<open>c.charCodeAt(0).toString(16).toUpperCase()\<close>,
  padded to two digits.
\<close>

definition encodeHeaderValue :: "jsstring \<Rightarrow> jsstring" where
  "encodeHeaderValue v =
     (if list_all (\<lambda>c. c \<le> 127) v then v
      else js ''=?UTF-8?Q?'' @
           concat (map (\<lambda>c. if c \<le> 127 then [c]
                             else (let hex = hexUpper c
                                   in 61 # (if length hex < 2 then 48 # hex else hex))) v) @
           js ''?='')"

text \<open>\<open>.replace(/[\r\n\t]+/g, ' ')\<close>\<close>

definition isCrLfTab :: "nat \<Rightarrow> bool" where
  "isCrLfTab c \<longleftrightarrow> c = 13 \<or> c = 10 \<or> c = 9"

function replaceCrLfTab :: "jsstring \<Rightarrow> jsstring" where
  "replaceCrLfTab [] = []"
| "replaceCrLfTab (x # xs) =
     (if isCrLfTab x then 32 # replaceCrLfTab (dropWhile isCrLfTab xs)
      else x # replaceCrLfTab xs)"
  by pat_completeness auto
termination
  by (relation "measure length") (auto simp: less_Suc_eq_le length_dropWhile_le)

text \<open>\<open>.replace(/\s{2,}/g, ' ')\<close>\<close>

function replaceSpaceRuns :: "jsstring \<Rightarrow> jsstring" where
  "replaceSpaceRuns [] = []"
| "replaceSpaceRuns [x] = [x]"
| "replaceSpaceRuns (x # y # xs) =
     (if isWhiteSpace x \<and> isWhiteSpace y
      then 32 # replaceSpaceRuns (dropWhile isWhiteSpace xs)
      else x # replaceSpaceRuns (y # xs))"
  by pat_completeness auto
termination
  by (relation "measure length")
     (auto simp: less_Suc_eq_le intro: le_trans [OF length_dropWhile_le])

definition sanitizeHeader :: "jsstring \<Rightarrow> jsstring" where
  "sanitizeHeader v = encodeHeaderValue (trim (replaceSpaceRuns (replaceCrLfTab v)))"

text \<open>
  The two tests on the name of a custom header: \<open>/^[a-zA-Z0-9-]+$/\<close> and
  \<open>/^(from|to|cc|bcc|subject|date|message-id)$/i\<close>.
\<close>

definition isHeaderName :: "jsstring \<Rightarrow> bool" where
  "isHeaderName name \<longleftrightarrow> name \<noteq> [] \<and> list_all (\<lambda>c. isAlnum c \<or> c = 45) name"

definition isReservedHeader :: "jsstring \<Rightarrow> bool" where
  "isReservedHeader name \<longleftrightarrow>
     toLowerAscii name \<in> set [js ''from'', js ''to'', js ''cc'', js ''bcc'', js ''subject'',
                               js ''date'', js ''message-id'']"

text \<open>
  \<open>createEmailHeaders\<close>.  \<open>to\<close> is interpolated as a string: \<open>sendEmail\<close> composes a
  message only after \<open>validateEmail(to)\<close> has held, which it does for a string only.
\<close>

definition createEmailHeaders ::
  "env \<Rightarrow> RequiredConfiguration \<Rightarrow> EmailOptions \<Rightarrow> event list \<Rightarrow> jsstring list" where
  "createEmailHeaders env cfg options tr =
     (let messageId = generateMessageId env cfg tr;
          date = dateNow env tr;
          frm = (case fromAddr options of
                   Some f \<Rightarrow> (if f \<noteq> [] then f else user cfg)
                 | None \<Rightarrow> user cfg);
          to = interpolate (toAddr options)
      in [js ''From: '' @ sanitizeHeader frm,
          js ''To: '' @ sanitizeHeader to,
          js ''Subject: '' @ sanitizeHeader (subject options),
          js ''Message-ID: '' @ messageId,
          js ''Date: '' @ date,
          js ''MIME-Version: 1.0''] @
         (case cc options of
            Some v \<Rightarrow> (if truthy v then [js ''Cc: '' @ sanitizeHeader (joined v)] else [])
          | None \<Rightarrow> []) @
         (case replyTo options of
            Some r \<Rightarrow> (if r \<noteq> [] then [js ''Reply-To: '' @ sanitizeHeader r] else [])
          | None \<Rightarrow> []) @
         map (\<lambda>(name, v). name @ js '': '' @ sanitizeHeader v)
           (filter (\<lambda>(name, v). isHeaderName name \<and> \<not> isReservedHeader name)
              (headers options)))"

definition createMultipartEmail ::
  "env \<Rightarrow> RequiredConfiguration \<Rightarrow> EmailOptions \<Rightarrow> event list \<Rightarrow> jsstring" where
  "createMultipartEmail env cfg options tr =
     (let txt = (case textBody options of Some t \<Rightarrow> t | None \<Rightarrow> []);
          html = (case htmlBody options of Some h \<Rightarrow> h | None \<Rightarrow> []);
          hdrs = createEmailHeaders env cfg options tr;
          boundary = generateBoundary env tr
      in if html \<noteq> [] \<and> txt \<noteq> [] then
           jsJoin CRLF (hdrs @ [js ''Content-Type: multipart/alternative; boundary='' @
                                [34] @ boundary @ [34]]) @
           CRLF @ CRLF @ js ''--'' @ boundary @ CRLF @
           js ''Content-Type: text/plain; charset=utf-8'' @ CRLF @
           js ''Content-Transfer-Encoding: quoted-printable'' @ CRLF @ CRLF @
           encodeQuotedPrintable txt @ CRLF @ CRLF @ js ''--'' @ boundary @ CRLF @
           js ''Content-Type: text/html; charset=utf-8'' @ CRLF @
           js ''Content-Transfer-Encoding: quoted-printable'' @ CRLF @ CRLF @
           encodeQuotedPrintable html @ CRLF @ CRLF @ js ''--'' @ boundary @ js ''--'' @ CRLF
         else if html \<noteq> [] then
           jsJoin CRLF (hdrs @ [js ''Content-Type: text/html; charset=utf-8'',
                                js ''Content-Transfer-Encoding: quoted-printable'']) @
           CRLF @ CRLF @ encodeQuotedPrintable html
         else
           jsJoin CRLF (hdrs @ [js ''Content-Type: text/plain; charset=utf-8'',
                                js ''Content-Transfer-Encoding: quoted-printable'']) @
           CRLF @ CRLF @ encodeQuotedPrintable txt)"

section \<open>SMTPClient: sendEmail and close\<close>

definition failure :: "jsstring \<Rightarrow> SendResult" where
  "failure e = \<lparr> success = False, messageId = None, message = None, error = Some e \<rparr>"

text \<open>
  \<open>/Message-ID: (.*)/i.exec(emailContent)\<close>: the first place where the text reads
  \<open>Message-ID: \<close> in any letter case, and the rest of that line.
\<close>

definition isLineTerminator :: "nat \<Rightarrow> bool" where
  "isLineTerminator c \<longleftrightarrow> c = 10 \<or> c = 13 \<or> c = 8232 \<or> c = 8233"

fun matchMessageId :: "jsstring \<Rightarrow> jsstring option" where
  "matchMessageId [] = None"
| "matchMessageId (x # xs) =
     (if toLowerAscii (take 12 (x # xs)) = js ''message-id: ''
      then Some (takeWhile (\<lambda>c. \<not> isLineTerminator c) (drop 12 (x # xs)))
      else matchMessageId xs)"

text \<open>
  The two loops over \<open>ccList\<close> and \<open>bccList\<close>: one \<open>RCPT TO\<close> for every entry that
  \<open>validateEmail\<close> accepts; a rejected command ends the loop by its exception.
\<close>

fun rcptEach ::
  "env \<Rightarrow> RequiredConfiguration \<Rightarrow> jsstring list \<Rightarrow> SMTPClient \<Rightarrow>
   unit outcome \<times> SMTPClient" where
  "rcptEach env cfg [] c = (Resolved (), c)"
| "rcptEach env cfg (a # as) c =
     (if validateEmail a
      then andThen (sendCommand env cfg (js ''RCPT TO:<'' @ a @ js ''>'') 250 c)
             (\<lambda>_ c1. rcptEach env cfg as c1)
      else rcptEach env cfg as c)"

definition rcptOptional ::
  "env \<Rightarrow> RequiredConfiguration \<Rightarrow> addresses option \<Rightarrow> SMTPClient \<Rightarrow>
   unit outcome \<times> SMTPClient" where
  "rcptOptional env cfg v c =
     (case v of
        Some a \<Rightarrow> (if truthy a then rcptEach env cfg (asList a) c else (Resolved (), c))
      | None \<Rightarrow> (Resolved (), c))"

text \<open>
  The \<open>try\<close> block of \<open>sendEmail\<close>, statement by statement: the delay before a retry
  and the connection (\<open>ensureConnected\<close>), the envelope from \<open>MAIL FROM\<close> to the last
  \<open>RCPT TO\<close> (\<open>sendEnvelope\<close>), these two and the \<open>DATA\<close> command (\<open>sendUpToData\<close>), and
  in \<open>sendAttempt\<close> the whole block with the composition of the message, the size check
  and the content.  \<open>Resolved r\<close> is a \<open>return r\<close> inside the block, \<open>Rejected m\<close> an
  exception that reaches its \<open>catch\<close>.
\<close>

definition ensureConnected ::
  "env \<Rightarrow> RequiredConfiguration \<Rightarrow> SMTPClient \<Rightarrow> unit outcome \<times> SMTPClient" where
  "ensureConnected env cfg c =
     (let c1 = (if 0 < retryCount c
                then emit (Slept (retryDelay cfg))
                       (log cfg (js ''Retrying email send (attempt '' @ showNat (retryCount c) @
                                 js '' of '' @ showNat (maxRetries cfg) @ js '')...'') False c)
                else c)
      in if \<not> connected c1
         then andThen (connect env cfg c1) (\<lambda>_ c2. smtpHandshake env cfg c2)
         else (Resolved (), c1))"

definition sendEnvelope ::
  "env \<Rightarrow> RequiredConfiguration \<Rightarrow> EmailOptions \<Rightarrow> jsstring \<Rightarrow> SMTPClient \<Rightarrow>
   unit outcome \<times> SMTPClient" where
  "sendEnvelope env cfg options frm c =
     andThen (sendCommand env cfg (js ''MAIL FROM:<'' @ frm @ js ''>'') 250 c)
       (\<lambda>_ c1. andThen (sendCommand env cfg
                          (js ''RCPT TO:<'' @ interpolate (toAddr options) @ js ''>'') 250 c1)
       (\<lambda>_ c2. andThen (rcptOptional env cfg (cc options) c2)
       (\<lambda>_ c3. rcptOptional env cfg (bcc options) c3)))"

definition sendUpToData ::
  "env \<Rightarrow> RequiredConfiguration \<Rightarrow> EmailOptions \<Rightarrow> jsstring \<Rightarrow> SMTPClient \<Rightarrow>
   jsstring outcome \<times> SMTPClient" where
  "sendUpToData env cfg options frm c =
     andThen (ensureConnected env cfg c)
       (\<lambda>_ c1. andThen (sendEnvelope env cfg options frm c1)
       (\<lambda>_ c2. sendCommand env cfg (js ''DATA'') 354 c2))"

definition sendAttempt ::
  "env \<Rightarrow> RequiredConfiguration \<Rightarrow> EmailOptions \<Rightarrow> jsstring \<Rightarrow> SMTPClient \<Rightarrow>
   SendResult outcome \<times> SMTPClient" where
  "sendAttempt env cfg options frm c =
     andThen (sendUpToData env cfg options frm c)
       (\<lambda>_ c3.
          (let emailContent = createMultipartEmail env cfg options (trace c3)
           in if maxEmailSize < length emailContent
              then (Resolved (failure (js ''Email size exceeds maximum allowed'')), c3)
              else andThen (sendCommand env cfg (emailContent @ CRLF @ js ''.'') 250 c3)
                     (\<lambda>_ c4.
                        (Resolved \<lparr> success = True,
                                    messageId = map_option trim (matchMessageId emailContent),
                                    message = Some (js ''Email sent successfully''),
                                    error = None \<rparr>, c4))))"

definition isPermanentError :: "jsstring \<Rightarrow> bool" where
  "isPermanentError errorMessage \<longleftrightarrow>
     jsIncludes errorMessage (js ''5.'') \<or>
     jsIncludes errorMessage (js ''Authentication failed'') \<or>
     jsIncludes errorMessage (js ''certificate'')"

text \<open>
  The \<open>for\<close> loop over \<open>this.retryCount\<close>, from the value \<open>k\<close> on, with its \<open>catch\<close>
  block: the best-effort \<open>RSET\<close>, whose failure is ignored, and \<open>this.socket?.end()\<close>.
\<close>

function sendLoop ::
  "env \<Rightarrow> RequiredConfiguration \<Rightarrow> EmailOptions \<Rightarrow> jsstring \<Rightarrow> nat \<Rightarrow> SMTPClient \<Rightarrow>
   SendResult \<times> SMTPClient" where
  "sendLoop env cfg options frm k c =
     (if k \<le> maxRetries cfg then
        (case sendAttempt env cfg options frm (c\<lparr>retryCount := k\<rparr>) of
           (Resolved r, c1) \<Rightarrow> (r, c1)
         | (Rejected errorMessage, c1) \<Rightarrow>
             (let c2 = log cfg (js ''Error sending email: '' @ errorMessage) True c1
              in if isPermanentError errorMessage \<or> maxRetries cfg \<le> k
                 then (failure errorMessage, c2)
                 else (let c3 = (if connected c2
                                 then snd (sendCommand env cfg (js ''RSET'') 250 c2)
                                 else c2);
                           c4 = (if socket c3 \<noteq> None then emit Ended c3 else c3)
                       in sendLoop env cfg options frm (Suc k) (c4\<lparr>connected := False\<rparr>))))
      else (failure (js ''Maximum retry count exceeded''), c\<lparr>retryCount := k\<rparr>))"
  by pat_completeness auto
termination
  by (relation "measure (\<lambda>(env, cfg, options, frm, k, c). Suc (maxRetries cfg) - k)") auto

definition sendEmail ::
  "env \<Rightarrow> RequiredConfiguration \<Rightarrow> EmailOptions \<Rightarrow> SMTPClient \<Rightarrow> SendResult \<times> SMTPClient" where
  "sendEmail env cfg options c =
     (let frm = (case fromAddr options of
                   Some f \<Rightarrow> (if f \<noteq> [] then f else user cfg)
                 | None \<Rightarrow> user cfg);
          to = toAddr options;
          txt = (case textBody options of Some t \<Rightarrow> t | None \<Rightarrow> []);
          html = (case htmlBody options of Some h \<Rightarrow> h | None \<Rightarrow> [])
      in if frm = [] \<or> \<not> truthy to \<or> subject options = [] \<or> (txt = [] \<and> html = [])
         then (failure (js ''Missing required email parameters (from, to, subject, and either text or html)''), c)
         else if \<not> validateEmail frm \<or> \<not> validateEmailValue to
         then (failure (js ''Invalid email address format''), c)
         else sendLoop env cfg options frm 0 c)"

text \<open>
  \<open>close\<close>: the \<open>try\<close> with the \<open>QUIT\<close>, the \<open>catch\<close> that logs, and the \<open>finally\<close>.
\<close>

definition close :: "env \<Rightarrow> RequiredConfiguration \<Rightarrow> SMTPClient \<Rightarrow> SMTPClient" where
  "close env cfg c =
     (let c1 = (if connected c
                then (case sendCommand env cfg (js ''QUIT'') 221 c of
                        (Resolved _, c') \<Rightarrow> c'
                      | (Rejected e, c') \<Rightarrow> log cfg (js ''Error during QUIT: '' @ e) True c')
                else c)
      in if socket c1 \<noteq> None
         then (emit Destroyed c1)\<lparr>socket := None, connected := False\<rparr>
         else c1)"

text \<open>
  The states a client can be in: the constructor's, and the state after any call of a
  public method (\<open>connect\<close>, \<open>sendCommand\<close>, \<open>sendEmail\<close>, \<open>close\<close>) in any environment.
\<close>

inductive reachable :: "RequiredConfiguration \<Rightarrow> SMTPClient \<Rightarrow> bool" for cfg where
  constructed: "reachable cfg (newClient cfg)"
| after_connect: "reachable cfg c \<Longrightarrow> reachable cfg (snd (connect env cfg c))"
| after_sendCommand:
    "reachable cfg c \<Longrightarrow> reachable cfg (snd (sendCommand env cfg command code c))"
| after_sendEmail: "reachable cfg c \<Longrightarrow> reachable cfg (snd (sendEmail env cfg options c))"
| after_close: "reachable cfg c \<Longrightarrow> reachable cfg (close env cfg c)"


text \<open>
  The invariant of the two fields \<open>connected\<close> and \<open>socket\<close>: \<open>connected\<close> is set only
  by the greeting handler of a socket, and \<open>socket\<close> is set to \<open>null\<close> only by \<open>close\<close>, which
  clears \<open>connected\<close> too.
\<close>

definition socketInvariant :: "SMTPClient \<Rightarrow> bool" where
  "socketInvariant c \<longleftrightarrow> (connected c \<longrightarrow> socket c \<noteq> None)"

section \<open>Example inputs\<close>

text \<open>
  A configuration, a message and an environment on which the theorems below are
  evaluated.  The environment greets with 220 and takes the server as a parameter: a
  function from the trace to the response to the line written last.
\<close>

definition exampleConfig :: RequiredConfiguration where
  "exampleConfig =
     \<lparr> host = js ''smtp.example.com'', user = js ''me@example.com'',
       password = js ''secret'', port = 465, secure = True, debug = False, timeout = 10000,
       clientName = js ''client.example.com'', maxRetries = 3, retryDelay = 1000,
       skipAuthentication = False \<rparr>"

definition exampleOptions :: EmailOptions where
  "exampleOptions =
     \<lparr> fromAddr = Some (js ''me@example.com''), toAddr = Single (js ''you@example.org''),
       cc = None, bcc = None, replyTo = None, subject = js ''Hello'',
       textBody = Some (js ''Hi there''), htmlBody = None, headers = [] \<rparr>"

definition exampleEnv :: "(event list \<Rightarrow> reply) \<Rightarrow> env" where
  "exampleEnv server =
     \<lparr> hostname = js ''client.example.com'',
       connectOutcome = (\<lambda>tr. Greeting (js ''220 smtp.example.com ESMTP'' @ CRLF)),
       respond = server,
       tlsOutcome = (\<lambda>tr. TlsAuthorized),
       randomBytesHex = (\<lambda>tr n. replicate (2 * n) 97),
       dateNow = (\<lambda>tr. js ''Tue, 03 Nov 2026 07:15:00 GMT''),
       hmacMd5Hex = (\<lambda>key challenge. replicate 32 48),
       base64Decode = (\<lambda>s. s) \<rparr>"

definition lastWritten :: "event list \<Rightarrow> jsstring" where
  "lastWritten tr = (case wire tr of [] \<Rightarrow> [] | w # ws \<Rightarrow> last (w # ws))"

text \<open>A server that accepts every command with the code the client expects.\<close>

definition acceptingServer :: "event list \<Rightarrow> reply" where
  "acceptingServer tr =
     (if startsWith (lastWritten tr) (js ''AUTH'') then Reply (js ''235 Authenticated'' @ CRLF)
      else if lastWritten tr = js ''DATA'' @ CRLF then Reply (js ''354 Go ahead'' @ CRLF)
      else if lastWritten tr = js ''QUIT'' @ CRLF then Reply (js ''221 Bye'' @ CRLF)
      else Reply (js ''250 OK'' @ CRLF))"

text \<open>A server that answers every \<open>MAIL FROM\<close> with \<open>550 Mailbox unavailable\<close>.\<close>

definition serverRejectingMail :: "event list \<Rightarrow> reply" where
  "serverRejectingMail tr =
     (if startsWith (lastWritten tr) (js ''MAIL FROM'')
      then Reply (js ''550 Mailbox unavailable'' @ CRLF)
      else acceptingServer tr)"

text \<open>
  A server for an \<open>AUTH LOGIN\<close> exchange: 334 to the first and to the second line
  written, 235 to the third.
\<close>

definition loginServer :: "event list \<Rightarrow> reply" where
  "loginServer tr =
     (if length (wire tr) = 1 then Reply (js ''334 VXNlcm5hbWU6'' @ CRLF)
      else if length (wire tr) = 2 then Reply (js ''334 UGFzc3dvcmQ6'' @ CRLF)
      else Reply (js ''235 Authenticated'' @ CRLF))"

text \<open>A client whose TLS connection has been greeted.\<close>

definition connectedClient :: SMTPClient where
  "connectedClient =
     \<lparr> socket = Some TLSSocket, connected = True, lastCommand = [], serverCapabilities = [],
       secureMode = True, retryCount = 0, trace = [Created TLSSocket] \<rparr>"

text \<open>A message whose text is 10,485,761 letters \<open>a\<close>.\<close>

definition oversizeOptions :: EmailOptions where
  "oversizeOptions = exampleOptions\<lparr>textBody := Some (replicate 10485761 97)\<rparr>"


section \<open>Evaluation and string lemmas\<close>

text \<open>
  The equations of the three functions that recurse under a condition are unfolded on
  request only: on concrete arguments, where their condition is decided.
\<close>

declare showNat.simps [simp del] hexUpper.simps [simp del] sendLoop.simps [simp del]

lemmas str_eval =
  js_def CRLF_def startsWith_def endsWith_def suffix_to_prefix jsSplit_def trim_def
  isWhiteSpace_def isDigit_def isAlnum_def toUpperCase_def toLowerAscii_def hexDigit_def Let_def
  showNat.simps hexUpper.simps

lemmas utf8_eval = isHighSurrogate_def isLowSurrogate_def scalarOf_def utf8CodePoint_def

lemmas qp_eval = encodeQuotedPrintable_def replaceEquals_def qpChunk_def

lemmas validate_eval = validateEmail_def isLocalChar_def isDomainLabel_def isIPv4_def

lemma replaceNewlines_id: "10 \<notin> set s \<Longrightarrow> replaceNewlines s = s"
  by (induction s rule: replaceNewlines.induct) auto

lemma replaceEquals_id: "61 \<notin> set s \<Longrightarrow> replaceEquals s = s"
  by (induction s) (auto simp: replaceEquals_def)

lemma utf8Encode_ascii: "\<forall>c \<in> set s. c < 128 \<Longrightarrow> utf8Encode s = s"
  by (induction s rule: utf8Encode.induct) (auto simp: utf8_eval)

lemma qpChunk_plain: "32 \<le> b \<Longrightarrow> b \<le> 126 \<Longrightarrow> b \<noteq> 61 \<Longrightarrow> qpChunk b = [b]"
  by (auto simp: qpChunk_def)

text \<open>
  On bytes that are written as they are, the loop only appends, as long as the line
  stays within 75 characters.
\<close>

lemma qpLoop_plain:
  "\<forall>b \<in> set bs. 32 \<le> b \<and> b \<le> 126 \<and> b \<noteq> 61 \<Longrightarrow> lineLength + length bs \<le> 75 \<Longrightarrow>
   qpLoop (bs @ rest) encoded lineLength = qpLoop rest (encoded @ bs) (lineLength + length bs)"
proof (induction bs arbitrary: encoded lineLength)
  case Nil
  then show ?case by simp
next
  case (Cons b bs)
  then have b: "32 \<le> b" "b \<le> 126" "b \<noteq> 61" by auto
  from Cons.prems have rest: "\<forall>b \<in> set bs. 32 \<le> b \<and> b \<le> 126 \<and> b \<noteq> 61"
    and len: "Suc lineLength + length bs \<le> 75" by auto
  have "qpLoop (bs @ rest) (encoded @ [b]) (Suc lineLength) =
        qpLoop rest ((encoded @ [b]) @ bs) (Suc lineLength + length bs)"
    by (rule Cons.IH [OF rest len])
  with b len show ?case by (simp add: qpChunk_plain Let_def)
qed

lemma plain_text_bytes:
  assumes "\<forall>c \<in> set s. 32 \<le> c \<and> c \<le> 126 \<and> c \<noteq> 61"
  shows "utf8Encode (replaceEquals (replaceNewlines s)) = s"
proof -
  from assms have "10 \<notin> set s" "61 \<notin> set s" "\<forall>c \<in> set s. c < 128"
    by auto
  then show ?thesis
    by (simp add: replaceNewlines_id replaceEquals_id utf8Encode_ascii)
qed

lemmas client_eval =
  sendCommand_def andThen_def emit_def log_def wire_def lastWritten_def responseCode_def
  credentialsHidden_def newClient_def exampleConfig_def exampleEnv_def exampleOptions_def
  acceptingServer_def serverRejectingMail_def

lemmas handshake_eval =
  connect_def smtpHandshake_def parseCapabilities_def authenticate_def getBestAuthMethod_def
  authenticatePlain_def authenticateLogin_def b64Char_def ensureConnected_def upgradeToTLS_def

lemmas send_eval =
  sendEmail_def sendAttempt_def sendUpToData_def sendEnvelope_def rcptOptional_def failure_def
  isPermanentError_def sendLoop.simps

lemmas eval_cong = let_weak_cong prod.case_cong_weak outcome.case_cong_weak

lemma example_addresses:
  "validateEmail (js ''me@example.com'')" "validateEmail (js ''you@example.org'')"
  "validateEmail (js ''b@example.org'')" "validateEmail (js ''c@example.org'')"
  "\<not> validateEmail (js ''not an address'')"
  by (simp_all add: validate_eval str_eval)


lemma js_eq_Nil [simp]: "js s = [] \<longleftrightarrow> s = []"
  by (simp add: js_def)

section \<open>What the operations do to the state\<close>

lemma wire_simps [simp]:
  "wire [] = []"
  "wire (a @ b) = wire a @ wire b"
  "wire (Written s # tr) = s # wire tr"
  "wire (Created k # tr) = wire tr"
  "wire (Logged m # tr) = wire tr"
  "wire (Slept n # tr) = wire tr"
  "wire (Upgraded # tr) = wire tr"
  "wire (Ended # tr) = wire tr"
  "wire (Destroyed # tr) = wire tr"
  by (simp_all add: wire_def)

lemma emit_simps [simp]:
  "trace (emit e c) = trace c @ [e]"
  "socket (emit e c) = socket c"
  "connected (emit e c) = connected c"
  "lastCommand (emit e c) = lastCommand c"
  "retryCount (emit e c) = retryCount c"
  by (simp_all add: emit_def)

lemma log_simps [simp]:
  "wire (trace (log cfg m e c)) = wire (trace c)"
  "socket (log cfg m e c) = socket c"
  "connected (log cfg m e c) = connected c"
  "lastCommand (log cfg m e c) = lastCommand c"
  "retryCount (log cfg m e c) = retryCount c"
  by (simp_all add: log_def)

lemma andThen_Resolved:
  "andThen r f = (Resolved y, c') \<longleftrightarrow> (\<exists>x c1. r = (Resolved x, c1) \<and> f x c1 = (Resolved y, c'))"
  by (cases r; cases "fst r") (auto simp: andThen_def)

lemma andThen_snd:
  assumes "P (snd r)" and "\<And>x c. P c \<Longrightarrow> P (snd (f x c))"
  shows "P (snd (andThen r f))"
  using assms by (cases r; cases "fst r") (auto simp: andThen_def)

lemma sendCommand_frame [simp]:
  "socket (snd (sendCommand env cfg cmd n c)) = socket c"
  "connected (snd (sendCommand env cfg cmd n c)) = connected c"
  by (auto simp: sendCommand_def Let_def split: reply.splits option.splits)

lemma sendCommand_wire:
  "wire (trace (snd (sendCommand env cfg cmd n c))) =
     (if socket c = None \<or> \<not> connected c then wire (trace c)
      else wire (trace c) @ [cmd @ CRLF])"
  by (auto simp: sendCommand_def Let_def split: reply.splits option.splits)

lemma sendCommand_Resolved:
  assumes "sendCommand env cfg cmd n c = (Resolved r, c')"
  shows "wire (trace c') = wire (trace c) @ [cmd @ CRLF]"
proof -
  from assms have "socket c \<noteq> None \<and> connected c"
    by (auto simp: sendCommand_def split: if_splits)
  with sendCommand_wire [of env cfg cmd n c] assms show ?thesis by simp
qed


lemmas inv_andThen = andThen_snd [where P = socketInvariant]

lemma inv_sendCommand: "socketInvariant c \<Longrightarrow> socketInvariant (snd (sendCommand env cfg cmd n c))"
  by (simp add: socketInvariant_def)

lemma inv_emit [simp]: "socketInvariant (emit e c) = socketInvariant c"
  by (simp add: socketInvariant_def)

lemma inv_log [simp]: "socketInvariant (log cfg m e c) = socketInvariant c"
  by (simp add: socketInvariant_def)

lemma inv_connect: "socketInvariant c \<Longrightarrow> socketInvariant (snd (connect env cfg c))"
  by (auto simp: connect_def socketInvariant_def Let_def split: connectOutcome.splits)

lemma inv_upgradeToTLS: "socketInvariant c \<Longrightarrow> socketInvariant (snd (upgradeToTLS env cfg c))"
  by (auto simp: upgradeToTLS_def socketInvariant_def split: tlsOutcome.splits)

lemma inv_parseCapabilities [simp]:
  "socketInvariant (parseCapabilities cfg r c) = socketInvariant c"
  by (simp add: parseCapabilities_def socketInvariant_def Let_def)

lemma inv_authenticate: "socketInvariant c \<Longrightarrow> socketInvariant (snd (authenticate env cfg c))"
  unfolding authenticate_def authenticatePlain_def authenticateLogin_def authenticateCramMD5_def
  by (auto split: AuthMethod.splits simp: Let_def intro!: inv_andThen inv_sendCommand)

lemma inv_smtpHandshake: "socketInvariant c \<Longrightarrow> socketInvariant (snd (smtpHandshake env cfg c))"
  unfolding smtpHandshake_def
  by (auto simp: Let_def intro!: inv_andThen inv_sendCommand inv_upgradeToTLS inv_authenticate)

lemma inv_ensureConnected:
  "socketInvariant c \<Longrightarrow> socketInvariant (snd (ensureConnected env cfg c))"
  unfolding ensureConnected_def
  by (auto simp: Let_def intro!: inv_andThen inv_connect inv_smtpHandshake)

lemma inv_rcptEach: "socketInvariant c \<Longrightarrow> socketInvariant (snd (rcptEach env cfg as c))"
  by (induction as arbitrary: c) (auto intro!: inv_andThen inv_sendCommand)

lemma inv_rcptOptional: "socketInvariant c \<Longrightarrow> socketInvariant (snd (rcptOptional env cfg v c))"
  by (auto simp: rcptOptional_def inv_rcptEach split: option.splits)

lemma inv_sendEnvelope:
  "socketInvariant c \<Longrightarrow> socketInvariant (snd (sendEnvelope env cfg options frm c))"
  unfolding sendEnvelope_def
  by (auto intro!: inv_andThen inv_sendCommand inv_rcptOptional)

lemma inv_sendAttempt:
  "socketInvariant c \<Longrightarrow> socketInvariant (snd (sendAttempt env cfg options frm c))"
  unfolding sendAttempt_def sendUpToData_def
  by (auto simp: Let_def intro!: inv_andThen inv_sendCommand inv_sendEnvelope inv_ensureConnected)

lemma inv_sendLoop:
  "socketInvariant c \<Longrightarrow> socketInvariant (snd (sendLoop env cfg options frm k c))"
proof (induction env cfg options frm k c rule: sendLoop.induct)
  case (1 env cfg options frm k c)
  let ?a = "sendAttempt env cfg options frm (c\<lparr>retryCount := k\<rparr>)"
  have c: "socketInvariant (c\<lparr>retryCount := k\<rparr>)"
    using "1.prems" by (simp add: socketInvariant_def)
  have a: "socketInvariant (snd ?a)"
    by (rule inv_sendAttempt [OF c])
  show ?case
  proof (cases "k \<le> maxRetries cfg")
    case False
    with c show ?thesis by (simp add: sendLoop.simps [of env cfg options frm k c])
  next
    case True
    show ?thesis
    proof (cases ?a)
      case (Pair r c1)
      with a have c1: "socketInvariant c1" by simp
      show ?thesis
      proof (cases r)
        case (Resolved res)
        with Pair True c1 show ?thesis
          by (simp add: sendLoop.simps [of env cfg options frm k c])
      next
        case (Rejected e)
        show ?thesis
        proof (cases "isPermanentError e \<or> maxRetries cfg \<le> k")
          case True
          with Rejected Pair \<open>k \<le> maxRetries cfg\<close> c1 show ?thesis
            by (simp add: sendLoop.simps [of env cfg options frm k c] Let_def)
        next
          case False
          let ?xa = "log cfg (js ''Error sending email: '' @ e) True c1"
          let ?xb = "if connected ?xa then snd (sendCommand env cfg (js ''RSET'') 250 ?xa) else ?xa"
          let ?xc = "if socket ?xb \<noteq> None then emit Ended ?xb else ?xb"
          have "socketInvariant (snd (sendLoop env cfg options frm (Suc k)
                  (?xc\<lparr>connected := False\<rparr>)))"
            by (rule "1.IH" [OF True Pair [symmetric] Rejected refl False refl refl])
               (simp add: socketInvariant_def)
          with False Rejected Pair \<open>k \<le> maxRetries cfg\<close> show ?thesis
            by (simp add: sendLoop.simps [of env cfg options frm k c] Let_def)
        qed
      qed
    qed
  qed
qed

lemma inv_sendEmail:
  "socketInvariant c \<Longrightarrow> socketInvariant (snd (sendEmail env cfg options c))"
  by (simp add: sendEmail_def Let_def inv_sendLoop)

lemma sendCommand_frame_result:
  assumes "sendCommand env cfg cmd n c = (r, c')"
  shows "socket c' = socket c \<and> connected c' = connected c"
  using sendCommand_frame [of env cfg cmd n c] assms by simp

lemma inv_close: "socketInvariant c \<Longrightarrow> socketInvariant (close env cfg c)"
  by (auto simp: close_def socketInvariant_def Let_def split: prod.splits outcome.splits
      dest: sendCommand_frame_result)

lemma reachable_socketInvariant: "reachable cfg c \<Longrightarrow> socketInvariant c"
  by (induction rule: reachable.induct)
     (simp_all add: inv_connect inv_sendCommand inv_sendEmail inv_close,
      simp add: newClient_def socketInvariant_def)

section \<open>Envelope and header lemmas\<close>








text \<open>The attempt that reaches the size check, and the loop around it.\<close>

lemma sendUpToData_Resolved:
  assumes "sendUpToData env cfg options frm c = (Resolved r, c3)"
  shows "wire (trace c3) \<noteq> [] \<and> last (wire (trace c3)) = js ''DATA'' @ CRLF"
proof -
  from assms obtain c2 where
    "sendCommand env cfg (js ''DATA'') 354 c2 = (Resolved r, c3)"
    unfolding sendUpToData_def andThen_Resolved by blast
  from sendCommand_Resolved [OF this] show ?thesis by simp
qed

lemma sendAttempt_oversize:
  assumes "sendUpToData env cfg options frm c = (Resolved r, c3)"
      and "maxEmailSize < length (createMultipartEmail env cfg options (trace c3))"
  shows "sendAttempt env cfg options frm c =
           (Resolved (failure (js ''Email size exceeds maximum allowed'')), c3)"
  using assms by (simp add: sendAttempt_def andThen_def Let_def)

lemma sendLoop_returned:
  assumes "k \<le> maxRetries cfg"
      and "sendAttempt env cfg options frm (c\<lparr>retryCount := k\<rparr>) = (Resolved res, c1)"
  shows "sendLoop env cfg options frm k c = (res, c1)"
  using assms by (simp add: sendLoop.simps [of env cfg options frm k c])

section \<open>The length of a composed message\<close>

lemma length_replaceNewlines: "length s \<le> length (replaceNewlines s)"
  by (induction s rule: replaceNewlines.induct) auto

lemma length_replaceEquals: "length s \<le> length (replaceEquals s)"
  by (induction s) (auto simp: replaceEquals_def)

lemma length_utf8CodePoint: "1 \<le> length (utf8CodePoint cp)"
  by (simp add: utf8CodePoint_def)

lemma length_utf8CodePoint_pair: "65536 \<le> cp \<Longrightarrow> length (utf8CodePoint cp) = 4"
  by (simp add: utf8CodePoint_def)

lemma length_utf8Encode: "length s \<le> length (utf8Encode s)"
proof (induction s rule: utf8Encode.induct)
  case 1
  then show ?case by simp
next
  case (2 x)
  then show ?case using length_utf8CodePoint [of "scalarOf x"] by simp
next
  case (3 x y xs)
  show ?case
  proof (cases "isHighSurrogate x \<and> isLowSurrogate y")
    case True
    with 3 show ?thesis by (simp add: length_utf8CodePoint_pair)
  next
    case False
    with 3 length_utf8CodePoint [of "scalarOf x"] show ?thesis by auto
  qed
qed

lemma length_qpChunk: "1 \<le> length (qpChunk b)"
  by (simp add: qpChunk_def Let_def)

lemma length_qpLoop: "length encoded + length bs \<le> length (qpLoop bs encoded lineLength)"
proof (induction bs arbitrary: encoded lineLength)
  case Nil
  then show ?case by simp
next
  case (Cons b bs)
  let ?e1 = "if (if b = 10 then 0 else lineLength) + length (qpChunk b) > 75 \<and> \<not> (b = 13 \<or> b = 10)
             then encoded @ [61, 13, 10] else encoded"
  let ?l2 = "(if (if b = 10 then 0 else lineLength) + length (qpChunk b) > 75 \<and> \<not> (b = 13 \<or> b = 10)
             then 0 else (if b = 10 then 0 else lineLength)) + length (qpChunk b)"
  have "length (?e1 @ qpChunk b) + length bs \<le> length (qpLoop bs (?e1 @ qpChunk b) ?l2)"
    by (rule Cons.IH)
  moreover have "length encoded + 1 \<le> length (?e1 @ qpChunk b)"
    using length_qpChunk [of b] by simp
  ultimately show ?case by (simp add: Let_def)
qed

lemma length_encodeQuotedPrintable: "length s \<le> length (encodeQuotedPrintable s)"
proof -
  have "length s \<le> length (utf8Encode (replaceEquals (replaceNewlines s)))"
    by (meson length_replaceNewlines length_replaceEquals length_utf8Encode le_trans)
  also have "\<dots> \<le> length (qpLoop (utf8Encode (replaceEquals (replaceNewlines s))) [] 0)"
    using length_qpLoop [of "[]" "utf8Encode (replaceEquals (replaceNewlines s))" 0] by simp
  finally show ?thesis by (simp add: encodeQuotedPrintable_def)
qed

lemma length_createMultipartEmail:
  "htmlBody options = None \<Longrightarrow> textBody options = Some t \<Longrightarrow>
   length t \<le> length (createMultipartEmail env cfg options tr)"
  using length_encodeQuotedPrintable [of t]
  by (simp add: createMultipartEmail_def Let_def)

section \<open>Runs on the example inputs\<close>


lemma oversize_reaches_DATA:
  "fst (sendUpToData (exampleEnv acceptingServer) exampleConfig oversizeOptions
          (js ''me@example.com'') ((newClient exampleConfig)\<lparr>retryCount := 0\<rparr>)) =
   Resolved (js ''354 Go ahead'')"
  by (simp add: send_eval handshake_eval client_eval oversizeOptions_def str_eval utf8_eval
      cong: eval_cong)

lemma oversize_length:
  "maxEmailSize < length (createMultipartEmail env cfg oversizeOptions tr)"
  using length_createMultipartEmail [of oversizeOptions "replicate 10485761 97" env cfg tr]
  by (simp add: oversizeOptions_def exampleOptions_def maxEmailSize_def)

lemma oversize_run:
  "sendLoop (exampleEnv acceptingServer) exampleConfig oversizeOptions (js ''me@example.com'') 0
     (newClient exampleConfig) =
     (failure (js ''Email size exceeds maximum allowed''),
      snd (sendUpToData (exampleEnv acceptingServer) exampleConfig oversizeOptions
             (js ''me@example.com'') ((newClient exampleConfig)\<lparr>retryCount := 0\<rparr>))) \<and>
   last (wire (trace (snd (sendUpToData (exampleEnv acceptingServer) exampleConfig
       oversizeOptions (js ''me@example.com'')
       ((newClient exampleConfig)\<lparr>retryCount := 0\<rparr>))))) = js ''DATA'' @ CRLF"
proof -
  let ?r = "sendUpToData (exampleEnv acceptingServer) exampleConfig oversizeOptions
              (js ''me@example.com'') ((newClient exampleConfig)\<lparr>retryCount := 0\<rparr>)"
  have e: "?r = (Resolved (js ''354 Go ahead''), snd ?r)"
    using oversize_reaches_DATA by (simp add: prod_eq_iff)
  have k: "0 \<le> maxRetries exampleConfig" by simp
  from sendLoop_returned [OF k sendAttempt_oversize [OF e oversize_length]]
    sendUpToData_Resolved [OF e]
  show ?thesis by simp
qed

section \<open>The encoders\<close>

text \<open>
  C2.  The quoted-printable encoder does not emit \<open>=\<close> as \<open>=3D\<close>: the \<open>=\<close> of the \<open>=3D\<close>
  that the string replacement has put in is a byte 61 for the loop, which encodes it once
  more.  \<open>encodeQuotedPrintable("a=b")\<close> is \<open>a=3D3Db\<close>, not \<open>a=3Db\<close>.
\<close>

theorem encodeQuotedPrintable_equals_sign:
  "encodeQuotedPrintable (js ''a=b'') = js ''a=3D3Db''"
  by (simp add: qp_eval str_eval utf8_eval)

text \<open>
  C5.  \<open>encodeHeaderValue\<close> writes the hexadecimal code of each non-ASCII UTF-16 code
  unit, not the bytes of its UTF-8 encoding: U+00E5, whose UTF-8 bytes are C3 A5, becomes
  \<open>=E5\<close>, and U+4F60, whose UTF-8 bytes are E4 BD A0, becomes \<open>=4F60\<close>, four digits.
\<close>

theorem encodeHeaderValue_code_units:
  "encodeHeaderValue [229] = js ''=?UTF-8?Q?=E5?='' \<and>
   utf8Encode [229] = [195, 165] \<and>
   encodeHeaderValue [20320] = js ''=?UTF-8?Q?=4F60?='' \<and>
   utf8Encode [20320] = [228, 189, 160]"
  by (simp add: encodeHeaderValue_def str_eval utf8_eval)

text \<open>
  C9, as amended.  On a string of at most 75 printable ASCII characters (codes 32 to
  126) without \<open>=\<close>, \<open>encodeQuotedPrintable\<close> is the identity.
\<close>

theorem encodeQuotedPrintable_identity_short:
  assumes "\<forall>c \<in> set text. 32 \<le> c \<and> c \<le> 126 \<and> c \<noteq> 61" and "length text \<le> 75"
  shows "encodeQuotedPrintable text = text"
  using assms qpLoop_plain [of "text" 0 "[]" "[]"]
  by (simp add: encodeQuotedPrintable_def plain_text_bytes)

theorem encodeQuotedPrintable_identity_short_witness:
  "encodeQuotedPrintable (js ''Hello, world!'') = js ''Hello, world!''"
  using encodeQuotedPrintable_identity_short [of "js ''Hello, world!''"]
  by (simp add: js_def)

text \<open>
  C9 as stated fails on a longer string: 75 letters \<open>a\<close> and a \<open>b\<close> are printable ASCII
  without \<open>=\<close>, CR, LF or TAB, and the encoder puts the soft line break \<open>=\<close> CR LF before
  the \<open>b\<close>.
\<close>

theorem encodeQuotedPrintable_soft_break:
  "encodeQuotedPrintable (replicate 75 97 @ [98]) = replicate 75 97 @ [61, 13, 10, 98] \<and>
   encodeQuotedPrintable (replicate 75 97 @ [98]) \<noteq> replicate 75 97 @ [98]"
proof -
  have "utf8Encode (replaceEquals (replaceNewlines (replicate 75 97 @ [98]))) =
        replicate 75 97 @ [98]"
    by (rule plain_text_bytes) auto
  moreover have "qpLoop (replicate 75 97 @ [98]) [] 0 =
                 qpLoop [98] ([] @ replicate 75 97) (0 + length (replicate 75 (97::nat)))"
    by (rule qpLoop_plain) auto
  moreover have "qpLoop [98] (replicate 75 97) 75 = replicate 75 97 @ [61, 13, 10, 98]"
    by (simp add: qpChunk_def Let_def)
  ultimately show ?thesis
    by (simp add: encodeQuotedPrintable_def)
qed

section \<open>The constructor\<close>

text \<open>
  C8.  With \<open>port\<close> and \<open>secure\<close> both omitted the constructor takes \<open>secure\<close> to be true
  and the port to be 587, not 465: the port is chosen from \<open>config.secure\<close> before its
  default is applied.  With \<open>secure\<close> given, the port is 465 for true and 587 for false.
\<close>

theorem default_port_secure_omitted:
  "port (resolveConfiguration env (config\<lparr>cfgPort := None, cfgSecure := None\<rparr>)) = 587 \<and>
   secure (resolveConfiguration env (config\<lparr>cfgPort := None, cfgSecure := None\<rparr>)) = True \<and>
   port (resolveConfiguration env (config\<lparr>cfgPort := None, cfgSecure := Some True\<rparr>)) = 465 \<and>
   port (resolveConfiguration env (config\<lparr>cfgPort := None, cfgSecure := Some False\<rparr>)) = 587"
  by (simp add: resolveConfiguration_def)

section \<open>sendEmail: recipients and headers\<close>




text \<open>
  C7.  \<open>sendEmail\<close> rejects every message whose \<open>to\<close> is a list: \<open>validateEmail\<close> is
  applied to the list itself and returns false, so the send fails before anything is
  written (no \<open>RCPT TO\<close>, no header), whatever the elements are.
\<close>

theorem sendEmail_rejects_list_recipient:
  "\<not> success (fst (sendEmail env cfg (options\<lparr>toAddr := Many recipients\<rparr>) c)) \<and>
   snd (sendEmail env cfg (options\<lparr>toAddr := Many recipients\<rparr>) c) = c"
  by (simp add: sendEmail_def failure_def Let_def)

theorem sendEmail_rejects_list_recipient_witness:
  "sendEmail (exampleEnv acceptingServer) exampleConfig
     (exampleOptions\<lparr>toAddr := Many [js ''a@example.org'', js ''b@example.org'']\<rparr>)
     (newClient exampleConfig) =
   (failure (js ''Invalid email address format''), newClient exampleConfig)"
  using sendEmail_rejects_list_recipient
    [where env = "exampleEnv acceptingServer" and cfg = exampleConfig
       and options = exampleOptions
       and recipients = "[js ''a@example.org'', js ''b@example.org'']"
       and c = "newClient exampleConfig"]
  by (simp add: sendEmail_def exampleOptions_def exampleConfig_def example_addresses)

section \<open>sendEmail: the size limit\<close>

text \<open>
  C6, as amended.  When an attempt has got as far as the accepted \<open>DATA\<close> command and
  the message composed there is longer than 10,485,760 code units, \<open>sendEmail\<close> returns
  the failure \<open>Email size exceeds maximum allowed\<close> from that attempt, with no retry
  and nothing more written: the last line on the wire is \<open>DATA\<close>.
\<close>

theorem oversize_rejected_after_DATA:
  assumes "k \<le> maxRetries cfg"
      and "sendUpToData env cfg options frm (c\<lparr>retryCount := k\<rparr>) = (Resolved r, c3)"
      and "maxEmailSize < length (createMultipartEmail env cfg options (trace c3))"
  shows "sendLoop env cfg options frm k c =
           (failure (js ''Email size exceeds maximum allowed''), c3) \<and>
         wire (trace c3) \<noteq> [] \<and> last (wire (trace c3)) = js ''DATA'' @ CRLF"
proof -
  have "sendAttempt env cfg options frm (c\<lparr>retryCount := k\<rparr>) =
          (Resolved (failure (js ''Email size exceeds maximum allowed'')), c3)"
    using assms(2,3) by (rule sendAttempt_oversize)
  with assms(1) have "sendLoop env cfg options frm k c =
          (failure (js ''Email size exceeds maximum allowed''), c3)"
    by (rule sendLoop_returned)
  with sendUpToData_Resolved [OF assms(2)] show ?thesis by simp
qed

theorem oversize_rejected_after_DATA_witness:
  "fst (sendLoop (exampleEnv acceptingServer) exampleConfig oversizeOptions
          (js ''me@example.com'') 0 (newClient exampleConfig)) =
   failure (js ''Email size exceeds maximum allowed'')"
proof -
  let ?r = "sendUpToData (exampleEnv acceptingServer) exampleConfig oversizeOptions
              (js ''me@example.com'') ((newClient exampleConfig)\<lparr>retryCount := 0\<rparr>)"
  have e: "?r = (Resolved (js ''354 Go ahead''), snd ?r)"
    using oversize_reaches_DATA by (simp add: prod_eq_iff)
  have k: "0 \<le> maxRetries exampleConfig" by simp
  from oversize_rejected_after_DATA [OF k e oversize_length]
  show ?thesis by simp
qed

text \<open>
  C6 as stated fails on the order of events: for the message of 10,485,761 letters and
  a server that accepts every command, \<open>sendEmail\<close> returns the size failure, and the last
  line it has written by then is the \<open>DATA\<close> command.
\<close>

theorem oversize_fails_after_DATA_is_sent:
  "fst (sendEmail (exampleEnv acceptingServer) exampleConfig oversizeOptions
          (newClient exampleConfig)) =
     failure (js ''Email size exceeds maximum allowed'') \<and>
   last (wire (trace (snd (sendEmail (exampleEnv acceptingServer) exampleConfig
                             oversizeOptions (newClient exampleConfig))))) =
     js ''DATA'' @ CRLF"
proof -
  have "sendEmail (exampleEnv acceptingServer) exampleConfig oversizeOptions
          (newClient exampleConfig) =
        sendLoop (exampleEnv acceptingServer) exampleConfig oversizeOptions
          (js ''me@example.com'') 0 (newClient exampleConfig)"
    by (simp add: sendEmail_def oversizeOptions_def exampleOptions_def example_addresses Let_def)
  with oversize_run show ?thesis by simp
qed

section \<open>sendEmail: retries\<close>

text \<open>
  C3.  A response that begins with a 5xx code but does not contain \<open>5.\<close> is retried: with
  \<open>maxRetries = 1\<close> and a server that answers \<open>MAIL FROM\<close> with
  \<open>550 Mailbox unavailable\<close>, \<open>sendEmail\<close> makes two attempts, with \<open>RSET\<close> and a delay of
  \<open>retryDelay\<close> between them, before it returns that failure.
\<close>

theorem sendEmail_retries_550:
  "(case sendEmail (exampleEnv serverRejectingMail) (exampleConfig\<lparr>maxRetries := 1\<rparr>)
           exampleOptions (newClient exampleConfig) of
      (r, c) \<Rightarrow>
        r = failure (js ''SMTP Error: 550 Mailbox unavailable'') \<and>
        wire (trace c) =
          [js ''EHLO client.example.com'' @ CRLF,
           js ''AUTH PLAIN AG1lQGV4YW1wbGUuY29tAHNlY3JldA=='' @ CRLF,
           js ''MAIL FROM:<me@example.com>'' @ CRLF,
           js ''RSET'' @ CRLF,
           js ''EHLO client.example.com'' @ CRLF,
           js ''AUTH PLAIN AG1lQGV4YW1wbGUuY29tAHNlY3JldA=='' @ CRLF,
           js ''MAIL FROM:<me@example.com>'' @ CRLF] \<and>
        filter (\<lambda>e. case e of Slept n \<Rightarrow> True | _ \<Rightarrow> False) (trace c) = [Slept 1000])"
  by (simp add: send_eval handshake_eval client_eval validate_eval str_eval utf8_eval
      cong: eval_cong)

theorem sendEmail_retries_550_witness:
  "fst (sendEmail (exampleEnv serverRejectingMail) (exampleConfig\<lparr>maxRetries := 1\<rparr>)
          exampleOptions (newClient exampleConfig)) =
   failure (js ''SMTP Error: 550 Mailbox unavailable'')"
  using sendEmail_retries_550 by (simp add: case_prod_beta)

section \<open>The debug log\<close>

text \<open>
  C4.  The third command of an \<open>AUTH LOGIN\<close> exchange, the base64 password, is logged
  as it is: when it is sent, \<open>lastCommand\<close> is the base64 user name, not \<open>AUTH LOGIN\<close>.
  With debug logging on and the password \<open>secret\<close>, the log holds its base64 text
  \<open>c2VjcmV0\<close>.
\<close>

theorem authenticateLogin_logs_password:
  "logged (trace (snd (authenticateLogin (exampleEnv loginServer)
                         (exampleConfig\<lparr>debug := True\<rparr>) connectedClient))) =
     [js ''SMTP: SMTP Command: [Credentials hidden]'',
      js ''SMTP: SMTP Response: 334 VXNlcm5hbWU6'',
      js ''SMTP: SMTP Command: [Credentials hidden]'',
      js ''SMTP: SMTP Response: 334 UGFzc3dvcmQ6'',
      js ''SMTP: SMTP Command: c2VjcmV0'',
      js ''SMTP: SMTP Response: 235 Authenticated''] \<and>
   base64 (utf8Encode (js ''secret'')) = js ''c2VjcmV0''"
  by (simp add: authenticateLogin_def client_eval connectedClient_def loginServer_def logged_def
        b64Char_def str_eval utf8_eval
      cong: eval_cong)

section \<open>close\<close>

text \<open>
  C10.  In every state a client can reach, \<open>close\<close> returns (it is a total function: the
  exception of a rejected or unanswered \<open>QUIT\<close> is caught): a connected client writes
  \<open>QUIT\<close> and nothing else, an unconnected one writes nothing; the socket is \<open>null\<close> and
  \<open>connected\<close> is false afterwards, a socket there was has been destroyed as the last
  action, and a second \<open>close\<close>, in any environment, changes nothing.
\<close>

theorem close_finishes:
  assumes "reachable cfg c"
  shows "socket (close env cfg c) = None \<and> \<not> connected (close env cfg c) \<and>
         wire (trace (close env cfg c)) =
           wire (trace c) @ (if connected c then [js ''QUIT'' @ CRLF] else []) \<and>
         (socket c \<noteq> None \<longrightarrow> last (trace (close env cfg c)) = Destroyed) \<and>
         close env' cfg (close env cfg c) = close env cfg c"
proof -
  from assms have inv: "connected c \<longrightarrow> socket c \<noteq> None"
    using reachable_socketInvariant by (simp add: socketInvariant_def)
  let ?q = "sendCommand env cfg (js ''QUIT'') 221 c"
  have w: "connected c \<Longrightarrow> wire (trace (snd ?q)) = wire (trace c) @ [js ''QUIT'' @ CRLF]"
    using inv by (simp add: sendCommand_wire)
  show ?thesis
  proof (cases "connected c")
    case True
    with inv w show ?thesis
      by (cases ?q; cases "fst ?q") (auto simp: close_def Let_def dest: sendCommand_frame_result)
  next
    case False
    then show ?thesis
      by (auto simp: close_def Let_def)
  qed
qed

theorem close_finishes_witness:
  "socket (close (exampleEnv acceptingServer) exampleConfig
             (snd (connect (exampleEnv acceptingServer) exampleConfig
                     (newClient exampleConfig)))) = None \<and>
   wire (trace (close (exampleEnv acceptingServer) exampleConfig
                  (snd (connect (exampleEnv acceptingServer) exampleConfig
                          (newClient exampleConfig))))) = [js ''QUIT'' @ CRLF]"
proof -
  have r: "reachable exampleConfig
             (snd (connect (exampleEnv acceptingServer) exampleConfig (newClient exampleConfig)))"
    by (rule reachable.after_connect [OF reachable.constructed])
  have c: "connected (snd (connect (exampleEnv acceptingServer) exampleConfig
                             (newClient exampleConfig)))"
    by (simp add: handshake_eval client_eval str_eval)
  have t: "wire (trace (snd (connect (exampleEnv acceptingServer) exampleConfig
                               (newClient exampleConfig)))) = []"
    by (simp add: handshake_eval client_eval str_eval)
  from close_finishes [OF r, where env = "exampleEnv acceptingServer"] c t
  show ?thesis by simp
qed

end
